theory Spec2Isabelle
  imports Main
begin

section \<open>Data: JSON values, messages, conversation documents\<close>

text \<open>
  The program is a Flask application (\<^verbatim>\<open>src/app.py\<close>) with two external collaborators:
  a MongoDB collection \<^verbatim>\<open>conversations\<close> and a Groq completion client. Both are process
  globals that are \<^verbatim>\<open>None\<close> when their start-up failed.

  JSON values are what \<^verbatim>\<open>request.json\<close> can hold and what a message's \<^verbatim>\<open>content\<close> can be
  (the handler stores whatever \<^verbatim>\<open>request.json.get('message')\<close> returned, \<^verbatim>\<open>None\<close> included).
\<close>

datatype jvalue =
    JNull
  | JBool bool
  | JNum int
  | JStr string
  | JArr "jvalue list"
  | JObj "(string \<times> jvalue) list"

text \<open>
  A message is the dict \<^verbatim>\<open>{'role': .., 'content': .., 'timestamp': ..}\<close> pushed to the store;
  the dicts sent to the completion call carry \<^verbatim>\<open>role\<close> and \<^verbatim>\<open>content\<close> only, which is
  \<open>timestamp = None\<close> here. A \<^verbatim>\<open>datetime\<close> is a natural number.
\<close>

record message =
  role :: string
  content :: jvalue
  timestamp :: "nat option"

text \<open>
  A document of the collection. Every key but \<^verbatim>\<open>_id\<close> may be absent: an upsert creates a
  document without \<^verbatim>\<open>created_at\<close>, and the documents of \<^verbatim>\<open>/test-mongodb\<close> have neither
  \<^verbatim>\<open>session_id\<close> nor \<^verbatim>\<open>messages\<close> (their keys are kept in \<open>other\<close>).
\<close>

record doc =
  doc_id :: nat
  session_id :: "string option"
  messages :: "message list option"
  created_at :: "nat option"
  updated_at :: "nat option"
  other :: "(string \<times> jvalue) list"

text \<open>The outcome of \<^verbatim>\<open>groq_client.chat.completions.create(...)\<close> followed by
  \<^verbatim>\<open>completion.choices[0].message.content\<close>: an exception (its text), or the content.\<close>

datatype completion = Raises string | Returns jvalue

text \<open>
  The process globals: \<open>conversations\<close> is \<open>None\<close> when the handle is \<^verbatim>\<open>None\<close>, else the
  documents of the collection in their natural order; \<open>groq_client\<close> is \<open>None\<close> when the
  client is not configured, else the service as a function of the message list sent.
\<close>

record app =
  conversations :: "doc list option"
  groq_client :: "(message list \<Rightarrow> completion) option"

text \<open>
  What one request reads from outside the program. Each \<^verbatim>\<open>datetime.now()\<close> and each store
  call of \<^verbatim>\<open>src/app.py\<close> is executed at most once per request, so both are keyed by the
  source line of the call: \<open>now e 153\<close> is the time read at line 153, and
  \<open>store_fault e 147\<close> is the text of the exception that the store call starting at line 147
  raises (\<open>None\<close>: the call succeeds). A store call that raises is taken to have had no
  effect on the collection. \<open>token_hex e\<close> is the value of \<^verbatim>\<open>secrets.token_hex(16)\<close>.
\<close>

record env =
  now :: "nat \<Rightarrow> nat"
  token_hex :: string
  store_fault :: "nat \<Rightarrow> string option"

section \<open>The collection operations the handlers use\<close>

text \<open>\<^verbatim>\<open>find_one({'session_id': sid})\<close>: the first document whose \<^verbatim>\<open>session_id\<close> is \<open>sid\<close>.\<close>

definition find_one :: "string \<Rightarrow> doc list \<Rightarrow> doc option" where
  "find_one sid docs = find (\<lambda>d. session_id d = Some sid) docs"

text \<open>The \<^verbatim>\<open>_id\<close> a new document gets: one that no document of the collection has.\<close>

definition new_id :: "doc list \<Rightarrow> nat" where
  "new_id docs = Suc (foldr max (map doc_id docs) 0)"

text \<open>\<^verbatim>\<open>insert_one(d)\<close>: the document is added with a new \<^verbatim>\<open>_id\<close>, which is returned.\<close>

definition insert_one :: "doc \<Rightarrow> doc list \<Rightarrow> nat \<times> doc list" where
  "insert_one d docs = (new_id docs, docs @ [d\<lparr>doc_id := new_id docs\<rparr>])"

text \<open>\<^verbatim>\<open>delete_one(filter)\<close> removes the first matching document, if there is one.\<close>

fun delete_first :: "(doc \<Rightarrow> bool) \<Rightarrow> doc list \<Rightarrow> doc list" where
  "delete_first P [] = []"
| "delete_first P (d # ds) = (if P d then ds else d # delete_first P ds)"


definition delete_by_id :: "nat \<Rightarrow> doc list \<Rightarrow> doc list" where
  "delete_by_id i docs = delete_first (\<lambda>d. doc_id d = i) docs"

text \<open>
  The update document of both \<^verbatim>\<open>update_one\<close> calls: \<^verbatim>\<open>$push\<close> of one message to
  \<^verbatim>\<open>messages\<close> (the array is created when the key is absent) and, when \<open>upd\<close> is
  \<open>Some t\<close>, \<^verbatim>\<open>$set\<close> of \<^verbatim>\<open>updated_at\<close> to \<open>t\<close>.
\<close>

definition push_message :: "message \<Rightarrow> nat option \<Rightarrow> doc \<Rightarrow> doc" where
  "push_message m upd d =
     d\<lparr>messages := Some (case messages d of None \<Rightarrow> [m] | Some ms \<Rightarrow> ms @ [m]),
       updated_at := (case upd of None \<Rightarrow> updated_at d | Some t \<Rightarrow> Some t)\<rparr>"

text \<open>The update applied to the first document of the session; \<open>None\<close> when none matches.\<close>

fun update_first :: "string \<Rightarrow> message \<Rightarrow> nat option \<Rightarrow> doc list \<Rightarrow> doc list option" where
  "update_first sid m upd [] = None"
| "update_first sid m upd (d # ds) =
     (if session_id d = Some sid then Some (push_message m upd d # ds)
      else map_option ((#) d) (update_first sid m upd ds))"

text \<open>
  What a matching \<^verbatim>\<open>update_one({'session_id': sid}, {'$push': .., '$set': ..}, upsert=..)\<close>
  does to the collection. With \<^verbatim>\<open>upsert=True\<close> and no matching document, one is
  inserted that has the filter's \<^verbatim>\<open>session_id\<close> and the fields the update writes;
  without upsert nothing happens.
\<close>

definition apply_update :: "string \<Rightarrow> message \<Rightarrow> nat option \<Rightarrow> bool \<Rightarrow> doc list \<Rightarrow> doc list" where
  "apply_update sid m upd upsert docs =
     (case update_first sid m upd docs of
        Some docs' \<Rightarrow> docs'
      | None \<Rightarrow>
          if upsert
          then docs @ [\<lparr>doc_id = new_id docs, session_id = Some sid, messages = Some [m],
                         created_at = None, updated_at = upd, other = []\<rparr>]
          else docs)"

text \<open>
  The driver encodes the update as BSON before it is sent, and the content of the
  pushed message is whatever JSON value the request carried (line 137 checks nothing).
  An integer outside the signed 64-bit range raises \<^verbatim>\<open>OverflowError\<close>, and an object key
  with a NUL character raises \<^verbatim>\<open>InvalidDocument\<close>; null, booleans and strings encode
  (a \<open>string\<close> is the UTF-8 bytes of the text).
\<close>

fun bson_encodable :: "jvalue \<Rightarrow> bool" where
  "bson_encodable (JNum n) = (- (2 ^ 63) \<le> n \<and> n < 2 ^ 63)"
| "bson_encodable (JArr vs) = list_all bson_encodable vs"
| "bson_encodable (JObj kv) =
     list_all (\<lambda>p. CHR 0x00 \<notin> set (fst p) \<and> bson_encodable (snd p)) kv"
| "bson_encodable v = True"

text \<open>
  \<^verbatim>\<open>update_one\<close> as the handlers call it: it raises, and leaves the collection alone,
  when the message cannot be encoded; otherwise it returns the collection updated.
  Failures that do not depend on the arguments are the \<open>store_fault\<close> of the request.
\<close>

definition update_one :: "string \<Rightarrow> message \<Rightarrow> nat option \<Rightarrow> bool \<Rightarrow> doc list \<Rightarrow> string + doc list" where
  "update_one sid m upd upsert docs =
     (if bson_encodable (content m) then Inr (apply_update sid m upd upsert docs)
      else Inl ''bson: the update document cannot be encoded'')"

text \<open>What \<^verbatim>\<open>/history\<close> reads (lines 249-251): the \<^verbatim>\<open>messages\<close> of the session's document,
  and nothing when there is no document or it has no \<^verbatim>\<open>messages\<close> key.\<close>

definition history_of :: "doc list \<Rightarrow> string \<Rightarrow> message list" where
  "history_of docs sid =
     (case find_one sid docs of
        None \<Rightarrow> []
      | Some d \<Rightarrow> (case messages d of None \<Rightarrow> [] | Some ms \<Rightarrow> ms))"


section \<open>The request handlers\<close>

text \<open>The document that \<^verbatim>\<open>home\<close> and \<^verbatim>\<open>clear_chat\<close> insert (lines 121-126 and 270-275);
  \<open>c\<close> and \<open>u\<close> are the two times read.\<close>

definition new_conversation :: "string \<Rightarrow> nat \<Rightarrow> nat \<Rightarrow> doc" where
  "new_conversation sid c u =
     \<lparr>doc_id = 0, session_id = Some sid, messages = Some [],
      created_at = Some c, updated_at = Some u, other = []\<rparr>"

text \<open>
  \<^verbatim>\<open>home\<close> (lines 112-131), without the rendered page: the session cookie and the
  collection after the request. The cookie is \<open>None\<close> when it has no \<^verbatim>\<open>session_id\<close> key.
\<close>

definition home :: "env \<Rightarrow> app \<Rightarrow> string option \<Rightarrow> string option \<times> doc list option" where
  "home e a sess =
     (case sess of
        Some sid \<Rightarrow> (sess, conversations a)
      | None \<Rightarrow>
          (case conversations a of
             None \<Rightarrow> (Some (token_hex e), None)
           | Some docs \<Rightarrow>
               (case store_fault e 121 of
                  Some x \<Rightarrow> (Some (token_hex e), Some docs)
                | None \<Rightarrow>
                    (Some (token_hex e),
                     Some (snd (insert_one
                       (new_conversation (token_hex e) (now e 124) (now e 125)) docs))))))"

text \<open>\<^verbatim>\<open>request.json.get('message')\<close> (line 137). The body is \<open>None\<close> when the request has
  no JSON body; that, and a JSON value that is not an object, raise. A missing key
  gives \<^verbatim>\<open>None\<close>. An object is the items of the parsed dict, its keys distinct.\<close>

definition get_message :: "jvalue option \<Rightarrow> string + jvalue" where
  "get_message body =
     (case body of
        Some (JObj kv) \<Rightarrow>
          Inr (case map_of kv ''message'' of None \<Rightarrow> JNull | Some v \<Rightarrow> v)
      | _ \<Rightarrow> Inl ''request.json has no get'')"

text \<open>Lines 138-142: \<^verbatim>\<open>not session_id\<close> holds for a missing key and for the empty string.\<close>

definition session_token :: "env \<Rightarrow> string option \<Rightarrow> string" where
  "session_token e sess =
     (case sess of
        None \<Rightarrow> token_hex e
      | Some sid \<Rightarrow> if sid = [] then token_hex e else sid)"

text \<open>Lines 144-160: the user message is pushed with \<^verbatim>\<open>$set updated_at\<close> and
  \<^verbatim>\<open>upsert=True\<close>; an exception of the call is printed and dropped (lines 159-160).\<close>

definition save_user_message :: "env \<Rightarrow> doc list option \<Rightarrow> string \<Rightarrow> jvalue \<Rightarrow> doc list option" where
  "save_user_message e convs sid user_message =
     (case convs of
        None \<Rightarrow> None
      | Some docs \<Rightarrow>
          (case store_fault e 147 of
             Some x \<Rightarrow> Some docs
           | None \<Rightarrow>
               (case update_one sid
                       \<lparr>role = ''user'', content = user_message, timestamp = Some (now e 153)\<rparr>
                       (Some (now e 155)) True docs of
                  Inl x \<Rightarrow> Some docs
                | Inr docs' \<Rightarrow> Some docs')))"

text \<open>Lines 169-175: \<^verbatim>\<open>chat_history\<close> stays \<^verbatim>\<open>None\<close> without a handle and when
  \<^verbatim>\<open>find_one\<close> raises.\<close>

definition fetch_history :: "env \<Rightarrow> doc list option \<Rightarrow> string \<Rightarrow> doc option" where
  "fetch_history e convs sid =
     (case convs of
        None \<Rightarrow> None
      | Some docs \<Rightarrow>
          (case store_fault e 173 of
             Some x \<Rightarrow> None
           | None \<Rightarrow> find_one sid docs))"

definition system_message :: message where
  "system_message =
     \<lparr>role = ''system'',
      content = JStr ''You are a helpful AI assistant. Provide clear, concise, and accurate responses.'',
      timestamp = None\<rparr>"

text \<open>Lines 189-192: the dict built from a stored message keeps its role and content.\<close>

definition for_completion :: "message \<Rightarrow> message" where
  "for_completion msg = \<lparr>role = role msg, content = content msg, timestamp = None\<rparr>"

text \<open>Python's \<^verbatim>\<open>xs[-10:]\<close>: the last ten elements, all of them when there are fewer.\<close>

definition last10 :: "'a list \<Rightarrow> 'a list" where
  "last10 xs = drop (length xs - 10) xs"

text \<open>
  Lines 177-198: the list sent to the completion call. A document fetched from the
  store is a non-empty dict, hence true, so the test of line 187 is whether there is
  a document with a \<^verbatim>\<open>messages\<close> key.
\<close>

definition build_messages :: "jvalue \<Rightarrow> doc option \<Rightarrow> message list" where
  "build_messages user_message chat_history =
     system_message #
     (case chat_history of
        None \<Rightarrow> [\<lparr>role = ''user'', content = user_message, timestamp = None\<rparr>]
      | Some d \<Rightarrow>
          (case messages d of
             None \<Rightarrow> [\<lparr>role = ''user'', content = user_message, timestamp = None\<rparr>]
           | Some ms \<Rightarrow> map for_completion (last10 ms)))"

text \<open>Lines 213-225: the reply is pushed without \<^verbatim>\<open>$set\<close> and without upsert; an
  exception of the call is printed and dropped.\<close>

definition save_ai_response :: "env \<Rightarrow> doc list option \<Rightarrow> string \<Rightarrow> jvalue \<Rightarrow> doc list option" where
  "save_ai_response e convs sid ai_response =
     (case convs of
        None \<Rightarrow> None
      | Some docs \<Rightarrow>
          (case store_fault e 216 of
             Some x \<Rightarrow> Some docs
           | None \<Rightarrow>
               (case update_one sid
                       \<lparr>role = ''assistant'', content = ai_response, timestamp = Some (now e 221)\<rparr>
                       None False docs of
                  Inl x \<Rightarrow> Some docs
                | Inr docs' \<Rightarrow> Some docs')))"

record chat_reply =
  response :: jvalue
  status :: string

text \<open>The three fixed bodies of \<^verbatim>\<open>chat\<close> (lines 164-167, 231-234, 238-241). The first
  starts with a warning sign, U+26A0 U+FE0F, written as its UTF-8 bytes.\<close>

definition groq_not_configured :: chat_reply where
  "groq_not_configured =
     \<lparr>response = JStr ([CHR 0xE2, CHR 0x9A, CHR 0xA0, CHR 0xEF, CHR 0xB8, CHR 0x8F] @
        '' Groq API is not configured. Please add GROQ_API_KEY to environment variables.''),
      status = ''error''\<rparr>"

definition ai_service_error :: chat_reply where
  "ai_service_error =
     \<lparr>response = JStr ''I encountered an error with the AI service. Please try again.'',
      status = ''error''\<rparr>"

definition something_went_wrong :: chat_reply where
  "something_went_wrong =
     \<lparr>response = JStr ''Sorry, something went wrong. Please try again.'',
      status = ''error''\<rparr>"

text \<open>
  What a \<^verbatim>\<open>/chat\<close> request leaves behind: the JSON body returned, the session cookie,
  the collection, and the message lists passed to the completion call (none or one).
\<close>

record chat_result =
  reply :: chat_reply
  session_out :: "string option"
  store_out :: "doc list option"
  sent :: "message list list"

text \<open>\<^verbatim>\<open>chat\<close> (lines 133-241). The outer \<^verbatim>\<open>except\<close> is reached from line 137 only: every
  later call that can raise has a handler of its own.\<close>

definition chat :: "env \<Rightarrow> app \<Rightarrow> string option \<Rightarrow> jvalue option \<Rightarrow> chat_result" where
  "chat e a sess body =
     (case get_message body of
        Inl x \<Rightarrow>
          \<lparr>reply = something_went_wrong, session_out = sess,
           store_out = conversations a, sent = []\<rparr>
      | Inr user_message \<Rightarrow>
          (let sid = session_token e sess;
               saved = save_user_message e (conversations a) sid user_message
           in case groq_client a of
                None \<Rightarrow>
                  \<lparr>reply = groq_not_configured, session_out = Some sid,
                   store_out = saved, sent = []\<rparr>
              | Some g \<Rightarrow>
                  (let msgs = build_messages user_message (fetch_history e saved sid)
                   in case g msgs of
                        Raises x \<Rightarrow>
                          \<lparr>reply = ai_service_error, session_out = Some sid,
                           store_out = saved, sent = [msgs]\<rparr>
                      | Returns ai_response \<Rightarrow>
                          \<lparr>reply = \<lparr>response = ai_response, status = ''success''\<rparr>,
                           session_out = Some sid,
                           store_out = save_ai_response e saved sid ai_response,
                           sent = [msgs]\<rparr>)))"

text \<open>\<^verbatim>\<open>get_history\<close> (lines 243-255): the value under the key \<^verbatim>\<open>messages\<close> of the body.\<close>

definition get_history :: "env \<Rightarrow> app \<Rightarrow> string option \<Rightarrow> message list" where
  "get_history e a sess =
     (case sess of
        None \<Rightarrow> []
      | Some sid \<Rightarrow>
          if sid = [] then []
          else (case conversations a of
                  None \<Rightarrow> []
                | Some docs \<Rightarrow>
                    (case store_fault e 249 of
                       Some x \<Rightarrow> []
                     | None \<Rightarrow> history_of docs sid)))"

text \<open>The body of \<^verbatim>\<open>/clear\<close> and \<^verbatim>\<open>/test-mongodb\<close>: \<^verbatim>\<open>status\<close> and, when present,
  \<^verbatim>\<open>message\<close>.\<close>

record status_reply =
  st_status :: string
  st_message :: "string option"



text \<open>The document of lines 312-316.\<close>

definition test_document :: "nat \<Rightarrow> doc" where
  "test_document t =
     \<lparr>doc_id = 0, session_id = None, messages = None, created_at = None, updated_at = None,
      other = [(''test'', JBool True), (''timestamp'', JNum (int t)),
               (''message'', JStr ''Test connection'')]\<rparr>"

text \<open>\<^verbatim>\<open>test_mongodb\<close> (lines 306-334): the body and the collection afterwards.
  \<^verbatim>\<open>str(e)\<close> is the exception's text.\<close>

definition test_mongodb :: "env \<Rightarrow> app \<Rightarrow> status_reply \<times> doc list option" where
  "test_mongodb e a =
     (case conversations a of
        None \<Rightarrow>
          (\<lparr>st_status = ''error'', st_message = Some ''MongoDB is not connected''\<rparr>, None)
      | Some docs \<Rightarrow>
          (case store_fault e 312 of
             Some x \<Rightarrow>
               (\<lparr>st_status = ''error'', st_message = Some (''MongoDB test failed: '' @ x)\<rparr>,
                Some docs)
           | None \<Rightarrow>
               (let (test_id, docs1) = insert_one (test_document (now e 314)) docs
                in case store_fault e 319 of
                     Some x \<Rightarrow>
                       (\<lparr>st_status = ''error'',
                         st_message = Some (''MongoDB test failed: '' @ x)\<rparr>,
                        Some docs1)
                   | None \<Rightarrow>
                       (\<lparr>st_status = ''success'',
                         st_message = Some ''MongoDB connection is working!''\<rparr>,
                        Some (delete_by_id test_id docs1)))))"

section \<open>Properties of the collection operations\<close>

lemma find_one_update_first:
  "update_first sid m upd docs = Some docs' \<Longrightarrow>
   \<exists>d. find_one sid docs = Some d \<and> find_one sid docs' = Some (push_message m upd d)"
proof (induction docs arbitrary: docs')
  case Nil
  then show ?case by simp
next
  case (Cons d ds)
  then show ?case
    by (auto simp: find_one_def push_message_def split: if_splits)
qed

lemma find_one_append:
  "find_one sid (docs @ [d]) =
     (case find_one sid docs of Some d' \<Rightarrow> Some d' | None \<Rightarrow> if session_id d = Some sid then Some d else None)"
  by (induction docs) (auto simp: find_one_def)

lemma update_first_None: "update_first sid m upd docs = None \<longleftrightarrow> find_one sid docs = None"
  by (induction docs) (auto simp: find_one_def)

lemma history_of_apply_update_upsert:
  "history_of (apply_update sid m upd True docs) sid = history_of docs sid @ [m]"
proof (cases "update_first sid m upd docs")
  case None
  then have "find_one sid docs = None" by (simp add: update_first_None)
  with None show ?thesis
    by (simp add: apply_update_def history_of_def find_one_append)
next
  case (Some docs')
  from find_one_update_first [OF Some] obtain d where
    "find_one sid docs = Some d" "find_one sid docs' = Some (push_message m upd d)" by blast
  with Some show ?thesis
    by (simp add: apply_update_def history_of_def push_message_def split: option.splits)
qed

lemma history_of_apply_update_existing:
  assumes "find_one sid docs \<noteq> None"
  shows "history_of (apply_update sid m upd False docs) sid = history_of docs sid @ [m]"
proof -
  from assms obtain docs' where some: "update_first sid m upd docs = Some docs'"
    using update_first_None [of sid m upd docs] by (cases "update_first sid m upd docs") auto
  from find_one_update_first [OF some] obtain d where
    "find_one sid docs = Some d" "find_one sid docs' = Some (push_message m upd d)" by blast
  with some show ?thesis
    by (simp add: apply_update_def history_of_def push_message_def split: option.splits)
qed

lemma find_one_apply_update_upsert: "find_one sid (apply_update sid m upd True docs) \<noteq> None"
proof (cases "update_first sid m upd docs")
  case None
  then have "find_one sid docs = None" by (simp add: update_first_None)
  with None show ?thesis by (simp add: apply_update_def find_one_append)
next
  case (Some docs')
  from find_one_update_first [OF Some] show ?thesis using Some by (auto simp: apply_update_def)
qed

lemma find_one_messages_upsert:
  "\<exists>d. find_one sid (apply_update sid m upd True docs) = Some d \<and>
       messages d = Some (history_of docs sid @ [m])"
proof (cases "update_first sid m upd docs")
  case None
  then have "find_one sid docs = None" by (simp add: update_first_None)
  with None show ?thesis by (simp add: apply_update_def find_one_append history_of_def)
next
  case (Some docs')
  from find_one_update_first [OF Some] obtain d where
    "find_one sid docs = Some d" "find_one sid docs' = Some (push_message m upd d)" by blast
  with Some show ?thesis
    by (simp add: apply_update_def history_of_def push_message_def split: option.splits)
qed

lemma update_one_encodable:
  "bson_encodable (content m) \<Longrightarrow>
   update_one sid m upd upsert docs = Inr (apply_update sid m upd upsert docs)"
  by (simp add: update_one_def)


lemma doc_id_le_foldr_max: "d \<in> set docs \<Longrightarrow> doc_id d \<le> foldr max (map doc_id docs) 0"
  by (induction docs) auto

lemma doc_id_less_new_id: "d \<in> set docs \<Longrightarrow> doc_id d < new_id docs"
  using doc_id_le_foldr_max [of d docs] by (simp add: new_id_def)

lemma delete_first_append_last:
  "\<forall>x\<in>set docs. \<not> P x \<Longrightarrow> P d \<Longrightarrow> delete_first P (docs @ [d]) = docs"
  by (induction docs) auto

lemma delete_inserted:
  "delete_by_id (fst (insert_one d docs)) (snd (insert_one d docs)) = docs"
  unfolding delete_by_id_def insert_one_def fst_conv snd_conv
  by (rule delete_first_append_last) (auto dest: doc_id_less_new_id)



lemma last10_last: "xs \<noteq> [] \<Longrightarrow> last10 xs \<noteq> [] \<and> last (last10 xs) = last xs"
proof -
  assume ne: "xs \<noteq> []"
  then have lt: "length xs - 10 < length xs" by (cases xs) auto
  then show ?thesis by (simp add: last10_def last_drop)
qed

section \<open>The context window\<close>



text \<open>
  Claim C2. With an empty history the list should be the system message followed by the
  current user message. \<^verbatim>\<open>chat\<close> does so when no document was fetched
  (\<open>build_messages_no_document\<close> below), but not when the fetched document holds an
  empty \<^verbatim>\<open>messages\<close> list: line 187 tests for the key, the loop of line 188 runs over
  nothing and the \<^verbatim>\<open>else\<close> of line 193 is not taken. This is the state after
  \<^verbatim>\<open>GET /\<close> when the first \<^verbatim>\<open>update_one\<close> of \<^verbatim>\<open>chat\<close> raises and \<^verbatim>\<open>find_one\<close> does not;
  the completion call then receives the system message alone.
\<close>

theorem empty_stored_history_sends_system_only:
  "build_messages (JStr ''hi'') (Some (new_conversation ''s1'' 0 0)) = [system_message]
   \<and> sent (chat \<lparr>now = (\<lambda>l. 0), token_hex = ''t1'',
                  store_fault = (\<lambda>l. if l = 147 then Some ''timed out'' else None)\<rparr>
                \<lparr>conversations = Some [new_conversation ''s1'' 0 0],
                  groq_client = Some (\<lambda>ms. Returns (JStr ''ok''))\<rparr>
                (Some ''s1'') (Some (JObj [(''message'', JStr ''hi'')])))
     = [[system_message]]"
  by (simp add: build_messages_def new_conversation_def last10_def chat_def get_message_def
      session_token_def save_user_message_def fetch_history_def find_one_def Let_def)

lemma build_messages_no_document:
  "build_messages um None = [system_message, \<lparr>role = ''user'', content = um, timestamp = None\<rparr>]"
  by (simp add: build_messages_def)

section \<open>A chat request followed by a history request\<close>

lemma session_token_nonempty:
  "token_hex e \<noteq> [] \<Longrightarrow> session_token e sess \<noteq> []"
  by (simp add: session_token_def split: option.splits)

text \<open>After \<^verbatim>\<open>GET /\<close> without a cookie the session is fresh in the sense of the next
  theorem, as long as the new token is not in the collection already.\<close>

lemma home_session_is_fresh:
  assumes "conversations a = Some docs" "store_fault e 121 = None"
    and "find_one (token_hex e) docs = None"
  shows "\<exists>docs'. home e a None = (Some (token_hex e), Some docs')
           \<and> history_of docs' (session_token e (Some (token_hex e))) = []"
  using assms
  by (simp add: home_def insert_one_def history_of_def find_one_append session_token_def
      new_conversation_def)

text \<open>
  Claim C3. The store is connected and its calls succeed, the session is fresh (nothing
  is stored for its token, whether the cookie already holds one or \<^verbatim>\<open>chat\<close> generates
  it), and the completion service answers the request built from \<^verbatim>\<open>"Hello"\<close> with a
  non-empty text \<open>r\<close>. Then \<^verbatim>\<open>POST /chat\<close> returns \<open>r\<close> with status \<^verbatim>\<open>success\<close>, and a
  following \<^verbatim>\<open>GET /history\<close> returns exactly two messages: the user's \<^verbatim>\<open>"Hello"\<close> and
  the assistant's \<open>r\<close>.
\<close>

theorem hello_then_history:
  assumes conn: "conversations a = Some docs"
    and groq: "groq_client a = Some g"
    and ok: "\<forall>l. store_fault e l = None" "\<forall>l. store_fault e' l = None"
    and tok: "token_hex e \<noteq> []"
    and fresh: "history_of docs (session_token e sess) = []"
    and body: "body = Some (JObj [(''message'', JStr ''Hello'')])"
    and answer: "g [system_message, \<lparr>role = ''user'', content = JStr ''Hello'', timestamp = None\<rparr>]
                 = Returns (JStr r)"
    and r: "r \<noteq> []"
  shows "reply (chat e a sess body) = \<lparr>response = JStr r, status = ''success''\<rparr>
       \<and> response (reply (chat e a sess body)) \<noteq> JStr []
       \<and> get_history e' (a\<lparr>conversations := store_out (chat e a sess body)\<rparr>)
            (session_out (chat e a sess body))
          = [\<lparr>role = ''user'', content = JStr ''Hello'', timestamp = Some (now e 153)\<rparr>,
             \<lparr>role = ''assistant'', content = JStr r, timestamp = Some (now e 221)\<rparr>]"
proof -
  define sid where "sid = session_token e sess"
  define m where "m = \<lparr>role = ''user'', content = JStr ''Hello'', timestamp = Some (now e 153)\<rparr>"
  define m' where "m' = \<lparr>role = ''assistant'', content = JStr r, timestamp = Some (now e 221)\<rparr>"
  define saved where "saved = apply_update sid m (Some (now e 155)) True docs"
  have sid: "sid \<noteq> []" unfolding sid_def using tok by (rule session_token_nonempty)
  have um: "get_message body = Inr (JStr ''Hello'')"
    by (simp add: body get_message_def)
  have save: "save_user_message e (conversations a) sid (JStr ''Hello'') = Some saved"
    using ok(1) by (simp add: save_user_message_def update_one_def conn saved_def m_def)
  obtain d where d: "find_one sid saved = Some d" "messages d = Some [m]"
    using find_one_messages_upsert [of sid m "Some (now e 155)" docs] fresh
    unfolding saved_def sid_def by auto
  have fetch: "fetch_history e (Some saved) sid = Some d"
    using ok(1) d(1) by (simp add: fetch_history_def)
  have built: "build_messages (JStr ''Hello'') (Some d)
      = [system_message, \<lparr>role = ''user'', content = JStr ''Hello'', timestamp = None\<rparr>]"
    using d(2) by (simp add: build_messages_def last10_def for_completion_def m_def)
  have ai: "save_ai_response e (Some saved) sid (JStr r)
      = Some (apply_update sid m' None False saved)"
    using ok(1) by (simp add: save_ai_response_def update_one_def m'_def)
  have res: "chat e a sess body =
      \<lparr>reply = \<lparr>response = JStr r, status = ''success''\<rparr>, session_out = Some sid,
       store_out = Some (apply_update sid m' None False saved),
       sent = [[system_message, \<lparr>role = ''user'', content = JStr ''Hello'', timestamp = None\<rparr>]]\<rparr>"
    by (simp add: chat_def um Let_def groq sid_def [symmetric] save fetch built answer ai)
  have "history_of saved sid = [m]"
    using d by (simp add: history_of_def)
  moreover have "find_one sid saved \<noteq> None" using d(1) by simp
  ultimately have hist: "history_of (apply_update sid m' None False saved) sid = [m, m']"
    by (simp add: history_of_apply_update_existing)
  have "get_history e' (a\<lparr>conversations := store_out (chat e a sess body)\<rparr>)
            (session_out (chat e a sess body)) = [m, m']"
    using sid ok(2) by (simp add: res get_history_def hist)
  then show ?thesis
    using r by (simp add: res m_def m'_def)
qed

theorem hello_then_history_witness:
  "reply (chat \<lparr>now = (\<lambda>l. l), token_hex = ''0f3a'', store_fault = (\<lambda>l. None)\<rparr>
            \<lparr>conversations = Some [], groq_client = Some (\<lambda>ms. Returns (JStr ''Hi there''))\<rparr>
            None (Some (JObj [(''message'', JStr ''Hello'')])))
     = \<lparr>response = JStr ''Hi there'', status = ''success''\<rparr>
   \<and> get_history \<lparr>now = (\<lambda>l. l), token_hex = ''77'', store_fault = (\<lambda>l. None)\<rparr>
       (\<lparr>conversations = Some [], groq_client = Some (\<lambda>ms. Returns (JStr ''Hi there''))\<rparr>
          \<lparr>conversations := store_out (chat \<lparr>now = (\<lambda>l. l), token_hex = ''0f3a'', store_fault = (\<lambda>l. None)\<rparr>
            \<lparr>conversations = Some [], groq_client = Some (\<lambda>ms. Returns (JStr ''Hi there''))\<rparr>
            None (Some (JObj [(''message'', JStr ''Hello'')])))\<rparr>)
       (session_out (chat \<lparr>now = (\<lambda>l. l), token_hex = ''0f3a'', store_fault = (\<lambda>l. None)\<rparr>
            \<lparr>conversations = Some [], groq_client = Some (\<lambda>ms. Returns (JStr ''Hi there''))\<rparr>
            None (Some (JObj [(''message'', JStr ''Hello'')]))))
     = [\<lparr>role = ''user'', content = JStr ''Hello'', timestamp = Some 153\<rparr>,
        \<lparr>role = ''assistant'', content = JStr ''Hi there'', timestamp = Some 221\<rparr>]"
  using hello_then_history [of "\<lparr>conversations = Some [], groq_client = Some (\<lambda>ms. Returns (JStr ''Hi there''))\<rparr>"
      "[]" "\<lambda>ms. Returns (JStr ''Hi there'')"
      "\<lparr>now = (\<lambda>l. l), token_hex = ''0f3a'', store_fault = (\<lambda>l. None)\<rparr>"
      "\<lparr>now = (\<lambda>l. l), token_hex = ''77'', store_fault = (\<lambda>l. None)\<rparr>"
      None "Some (JObj [(''message'', JStr ''Hello'')])" "''Hi there''"]
  by (simp add: history_of_def find_one_def)

section \<open>Clearing a chat\<close>




section \<open>Appending to a conversation\<close>

text \<open>
  Claim C5. Every append should set \<^verbatim>\<open>updated_at\<close>. The append of the user message
  does (\<^verbatim>\<open>$set\<close> at line 155); the append of the assistant reply (lines 216-223) has no
  \<^verbatim>\<open>$set\<close>. In the request below the user message is pushed at time 5 with
  \<^verbatim>\<open>updated_at\<close> 6 and the reply at time 9: \<^verbatim>\<open>updated_at\<close> is still 6 afterwards.
\<close>

theorem assistant_append_keeps_updated_at:
  "store_out (chat \<lparr>now = (\<lambda>l. if l = 153 then 5 else if l = 155 then 6 else if l = 221 then 9 else 0),
                    token_hex = ''9b1c'', store_fault = (\<lambda>l. None)\<rparr>
                  \<lparr>conversations = Some [\<lparr>doc_id = 1, session_id = Some ''0f3a'', messages = Some [],
                       created_at = Some 1, updated_at = Some 1, other = []\<rparr>],
                    groq_client = Some (\<lambda>ms. Returns (JStr ''Hi''))\<rparr>
                  (Some ''0f3a'') (Some (JObj [(''message'', JStr ''Hello'')])))
   = Some [\<lparr>doc_id = 1, session_id = Some ''0f3a'',
            messages = Some [\<lparr>role = ''user'', content = JStr ''Hello'', timestamp = Some 5\<rparr>,
                             \<lparr>role = ''assistant'', content = JStr ''Hi'', timestamp = Some 9\<rparr>],
            created_at = Some 1, updated_at = Some 6, other = []\<rparr>]"
  by (simp add: chat_def get_message_def session_token_def save_user_message_def
      fetch_history_def save_ai_response_def update_one_def apply_update_def push_message_def Let_def)

text \<open>In general, the append of the reply leaves every \<^verbatim>\<open>updated_at\<close> as it was.\<close>

lemma update_first_without_set:
  "update_first sid m None docs = Some docs' \<Longrightarrow> map updated_at docs' = map updated_at docs"
  by (induction docs arbitrary: docs') (auto simp: push_message_def split: if_splits)

lemma reply_append_keeps_updated_at:
  "map updated_at (apply_update sid m None False docs) = map updated_at docs"
  by (cases "update_first sid m None docs") (simp_all add: apply_update_def update_first_without_set)





section \<open>Requests without a store\<close>

lemma save_user_message_down:
  "convs = None \<or> store_fault e 147 \<noteq> None \<Longrightarrow> save_user_message e convs sid um = convs"
  by (auto simp: save_user_message_def split: option.splits)

lemma fetch_history_down:
  "convs = None \<or> store_fault e 173 \<noteq> None \<Longrightarrow> fetch_history e convs sid = None"
  by (auto simp: fetch_history_def split: option.splits)

lemma save_ai_response_down:
  "convs = None \<or> store_fault e 216 \<noteq> None \<Longrightarrow> save_ai_response e convs sid v = convs"
  by (auto simp: save_ai_response_def split: option.splits)

lemma get_history_down:
  "conversations a = None \<or> store_fault e 249 \<noteq> None \<Longrightarrow> get_history e a sess = []"
  by (auto simp: get_history_def split: option.splits)

lemma chat_status: "status (reply (chat e a sess body)) = ''success''
    \<or> status (reply (chat e a sess body)) = ''error''"
  by (simp add: chat_def Let_def something_went_wrong_def groq_not_configured_def
      ai_service_error_def split: sum.splits option.splits completion.splits)

text \<open>
  Claim C7. The store is unavailable when the handle is \<^verbatim>\<open>None\<close> or every store call
  raises. Then \<^verbatim>\<open>POST /chat\<close> returns a body whose status is \<^verbatim>\<open>success\<close> or \<^verbatim>\<open>error\<close>,
  nothing is persisted, the completion call (made whenever the client is configured and
  the body is a JSON object) receives the system message and the current user message
  only, and \<^verbatim>\<open>GET /history\<close> returns no messages.
\<close>

theorem chat_without_store:
  assumes down: "conversations a = None \<or> (\<forall>l. store_fault e l \<noteq> None)"
    and down': "conversations a = None \<or> (\<forall>l. store_fault e' l \<noteq> None)"
  shows "(status (reply (chat e a sess body)) = ''success''
            \<or> status (reply (chat e a sess body)) = ''error'')
       \<and> store_out (chat e a sess body) = conversations a
       \<and> (\<forall>g um. groq_client a = Some g \<and> get_message body = Inr um \<longrightarrow>
             sent (chat e a sess body)
               = [[system_message, \<lparr>role = ''user'', content = um, timestamp = None\<rparr>]])
       \<and> get_history e' a sess' = []"
proof -
  have sv: "\<And>sid um. save_user_message e (conversations a) sid um = conversations a"
    using down by (intro save_user_message_down) blast
  have ft: "\<And>sid. fetch_history e (conversations a) sid = None"
    using down by (intro fetch_history_down) blast
  have ai: "\<And>sid v. save_ai_response e (conversations a) sid v = conversations a"
    using down by (intro save_ai_response_down) blast
  have hist: "get_history e' a sess' = []"
    using down' by (intro get_history_down) blast
  have store: "store_out (chat e a sess body) = conversations a"
    by (simp add: chat_def Let_def sv ai split: sum.splits option.splits completion.splits)
  have call: "\<forall>g um. groq_client a = Some g \<and> get_message body = Inr um \<longrightarrow>
             sent (chat e a sess body)
               = [[system_message, \<lparr>role = ''user'', content = um, timestamp = None\<rparr>]]"
    by (simp add: chat_def Let_def sv ft build_messages_no_document split: completion.splits)
  from chat_status store call hist show ?thesis by blast
qed

theorem chat_without_store_witness:
  "chat \<lparr>now = (\<lambda>l. l), token_hex = ''9b1c'', store_fault = (\<lambda>l. Some ''connection refused'')\<rparr>
        \<lparr>conversations = Some [\<lparr>doc_id = 1, session_id = Some ''0f3a'',
             messages = Some [\<lparr>role = ''user'', content = JStr ''earlier'', timestamp = Some 2\<rparr>],
             created_at = Some 1, updated_at = Some 2, other = []\<rparr>],
          groq_client = Some (\<lambda>ms. Returns (JStr ''Hi there''))\<rparr>
        (Some ''0f3a'') (Some (JObj [(''message'', JStr ''Hello'')]))
   = \<lparr>reply = \<lparr>response = JStr ''Hi there'', status = ''success''\<rparr>,
      session_out = Some ''0f3a'',
      store_out = Some [\<lparr>doc_id = 1, session_id = Some ''0f3a'',
             messages = Some [\<lparr>role = ''user'', content = JStr ''earlier'', timestamp = Some 2\<rparr>],
             created_at = Some 1, updated_at = Some 2, other = []\<rparr>],
      sent = [[system_message, \<lparr>role = ''user'', content = JStr ''Hello'', timestamp = None\<rparr>]]\<rparr>
   \<and> get_history \<lparr>now = (\<lambda>l. l), token_hex = ''9b1c'', store_fault = (\<lambda>l. Some ''connection refused'')\<rparr>
        \<lparr>conversations = Some [\<lparr>doc_id = 1, session_id = Some ''0f3a'',
             messages = Some [\<lparr>role = ''user'', content = JStr ''earlier'', timestamp = Some 2\<rparr>],
             created_at = Some 1, updated_at = Some 2, other = []\<rparr>],
          groq_client = Some (\<lambda>ms. Returns (JStr ''Hi there''))\<rparr>
        (Some ''0f3a'') = []"
  using chat_without_store [of
      "\<lparr>conversations = Some [\<lparr>doc_id = 1, session_id = Some ''0f3a'',
             messages = Some [\<lparr>role = ''user'', content = JStr ''earlier'', timestamp = Some 2\<rparr>],
             created_at = Some 1, updated_at = Some 2, other = []\<rparr>],
          groq_client = Some (\<lambda>ms. Returns (JStr ''Hi there''))\<rparr>"
      "\<lparr>now = (\<lambda>l. l), token_hex = ''9b1c'', store_fault = (\<lambda>l. Some ''connection refused'')\<rparr>"
      "\<lparr>now = (\<lambda>l. l), token_hex = ''9b1c'', store_fault = (\<lambda>l. Some ''connection refused'')\<rparr>"
      "Some ''0f3a''" "Some (JObj [(''message'', JStr ''Hello'')])" "Some ''0f3a''"]
  by (simp add: chat_def get_message_def session_token_def save_user_message_def
      fetch_history_def save_ai_response_def build_messages_def get_history_def Let_def)

section \<open>Errors of the completion call\<close>

text \<open>
  Claim C8. Whatever exception \<open>x\<close> the completion call of a \<^verbatim>\<open>/chat\<close> request raises,
  the handler returns the status \<^verbatim>\<open>error\<close> with one fixed sentence, in which \<open>x\<close> does
  not occur; the exception ends in the handler of line 229.
\<close>

theorem completion_error_fixed_reply:
  assumes groq: "groq_client a = Some g"
    and called: "sent (chat e a sess body) = [ms]"
    and raised: "g ms = Raises x"
  shows "reply (chat e a sess body)
           = \<lparr>response = JStr ''I encountered an error with the AI service. Please try again.'',
              status = ''error''\<rparr>"
proof (cases "get_message body")
  case (Inl err)
  with called show ?thesis by (simp add: chat_def)
next
  case (Inr um)
  define msgs where "msgs = build_messages um (fetch_history e
      (save_user_message e (conversations a) (session_token e sess) um) (session_token e sess))"
  have "sent (chat e a sess body) = [msgs]"
    by (simp add: chat_def Inr groq Let_def msgs_def split: completion.splits)
  with called have "ms = msgs" by simp
  with raised have "g msgs = Raises x" by simp
  then show ?thesis
    by (simp add: chat_def Inr groq Let_def msgs_def [symmetric] ai_service_error_def)
qed

theorem completion_error_fixed_reply_witness:
  "reply (chat \<lparr>now = (\<lambda>l. l), token_hex = ''9b1c'', store_fault = (\<lambda>l. None)\<rparr>
            \<lparr>conversations = None,
              groq_client = Some (\<lambda>ms. Raises ''APIConnectionError: key gsk_123 rejected'')\<rparr>
            None (Some (JObj [(''message'', JStr ''Hello'')])))
     = \<lparr>response = JStr ''I encountered an error with the AI service. Please try again.'',
        status = ''error''\<rparr>"
  using completion_error_fixed_reply [of
      "\<lparr>conversations = None,
              groq_client = Some (\<lambda>ms. Raises ''APIConnectionError: key gsk_123 rejected'')\<rparr>"
      "\<lambda>ms. Raises ''APIConnectionError: key gsk_123 rejected''"
      "\<lparr>now = (\<lambda>l. l), token_hex = ''9b1c'', store_fault = (\<lambda>l. None)\<rparr>"
      None "Some (JObj [(''message'', JStr ''Hello'')])"
      "[system_message, \<lparr>role = ''user'', content = JStr ''Hello'', timestamp = None\<rparr>]"
      "''APIConnectionError: key gsk_123 rejected''"]
  by (simp add: chat_def get_message_def session_token_def save_user_message_def
      fetch_history_def build_messages_def Let_def)

section \<open>A body without the message key\<close>

text \<open>
  Claim C9. A \<^verbatim>\<open>POST /chat\<close> whose JSON object has no \<^verbatim>\<open>message\<close> key is not rejected:
  \<^verbatim>\<open>user_message\<close> is \<^verbatim>\<open>None\<close>; with the client configured and the store calls
  succeeding, the completion call is made and the last message it receives is the user
  message with null content; the reply is the completion's content with status
  \<^verbatim>\<open>success\<close>, or the completion error body; and with a connected store the message
  with null content is appended to the session's conversation (followed by the reply,
  when there is one and it can be encoded, as every string and null can).
\<close>

theorem chat_without_message_key:
  assumes body: "body = Some (JObj kv)" "map_of kv ''message'' = None"
    and groq: "groq_client a = Some g"
    and ok: "\<forall>l. store_fault e l = None"
  shows "\<exists>ms. sent (chat e a sess body) = [ms]
           \<and> last ms = \<lparr>role = ''user'', content = JNull, timestamp = None\<rparr>
           \<and> reply (chat e a sess body)
               = (case g ms of
                    Raises x \<Rightarrow> ai_service_error
                  | Returns v \<Rightarrow> \<lparr>response = v, status = ''success''\<rparr>)
           \<and> (\<forall>docs. conversations a = Some docs \<longrightarrow>
                 (\<exists>docs'. store_out (chat e a sess body) = Some docs'
                    \<and> history_of docs' (session_token e sess)
                        = history_of docs (session_token e sess)
                          @ [\<lparr>role = ''user'', content = JNull, timestamp = Some (now e 153)\<rparr>]
                          @ (case g ms of
                               Raises x \<Rightarrow> []
                             | Returns v \<Rightarrow>
                                 if bson_encodable v
                                 then [\<lparr>role = ''assistant'', content = v,
                                         timestamp = Some (now e 221)\<rparr>]
                                 else [])))"
proof -
  define sid where "sid = session_token e sess"
  define m where "m = \<lparr>role = ''user'', content = JNull, timestamp = Some (now e 153)\<rparr>"
  define saved where "saved = save_user_message e (conversations a) sid JNull"
  define ms where "ms = build_messages JNull (fetch_history e saved sid)"
  have um: "get_message body = Inr JNull"
    by (simp add: body get_message_def)
  have sent: "sent (chat e a sess body) = [ms]"
    by (simp add: chat_def um groq Let_def ms_def saved_def sid_def split: completion.splits)
  have rep: "reply (chat e a sess body)
      = (case g ms of Raises x \<Rightarrow> ai_service_error
         | Returns v \<Rightarrow> \<lparr>response = v, status = ''success''\<rparr>)"
    by (simp add: chat_def um groq Let_def ms_def saved_def sid_def split: completion.splits)
  have out: "store_out (chat e a sess body)
      = (case g ms of Raises x \<Rightarrow> saved | Returns v \<Rightarrow> save_ai_response e saved sid v)"
    by (simp add: chat_def um groq Let_def ms_def saved_def sid_def split: completion.splits)
  have last_ms: "last ms = \<lparr>role = ''user'', content = JNull, timestamp = None\<rparr>"
  proof (cases "conversations a")
    case None
    then show ?thesis
      by (simp add: ms_def saved_def save_user_message_def fetch_history_def build_messages_def)
  next
    case (Some docs)
    have sv: "saved = Some (apply_update sid m (Some (now e 155)) True docs)"
      using ok by (simp add: saved_def save_user_message_def update_one_def Some m_def)
    obtain d where d: "find_one sid (apply_update sid m (Some (now e 155)) True docs) = Some d"
        "messages d = Some (history_of docs sid @ [m])"
      using find_one_messages_upsert [of sid m "Some (now e 155)" docs] by blast
    have "ms = system_message # map for_completion (last10 (history_of docs sid @ [m]))"
      using ok d by (simp add: ms_def sv fetch_history_def build_messages_def)
    moreover have "last10 (history_of docs sid @ [m]) \<noteq> []"
        "last (last10 (history_of docs sid @ [m])) = m"
      using last10_last [of "history_of docs sid @ [m]"] by simp_all
    ultimately show ?thesis
      by (simp add: last_map for_completion_def m_def)
  qed
  have store: "\<forall>docs. conversations a = Some docs \<longrightarrow>
      (\<exists>docs'. store_out (chat e a sess body) = Some docs'
         \<and> history_of docs' sid = history_of docs sid @ [m]
             @ (case g ms of Raises x \<Rightarrow> []
                | Returns v \<Rightarrow>
                    if bson_encodable v
                    then [\<lparr>role = ''assistant'', content = v,
                            timestamp = Some (now e 221)\<rparr>]
                    else []))"
  proof (intro allI impI)
    fix docs assume conn: "conversations a = Some docs"
    define docs1 where "docs1 = apply_update sid m (Some (now e 155)) True docs"
    have sv: "saved = Some docs1"
      using ok by (simp add: saved_def save_user_message_def update_one_def conn m_def docs1_def)
    have h1: "history_of docs1 sid = history_of docs sid @ [m]"
      unfolding docs1_def by (rule history_of_apply_update_upsert)
    have ex: "find_one sid docs1 \<noteq> None"
      unfolding docs1_def by (rule find_one_apply_update_upsert)
    show "\<exists>docs'. store_out (chat e a sess body) = Some docs'
         \<and> history_of docs' sid = history_of docs sid @ [m]
             @ (case g ms of Raises x \<Rightarrow> []
                | Returns v \<Rightarrow>
                    if bson_encodable v
                    then [\<lparr>role = ''assistant'', content = v,
                            timestamp = Some (now e 221)\<rparr>]
                    else [])"
    proof (cases "g ms")
      case (Raises x)
      then show ?thesis by (simp add: out sv h1)
    next
      case (Returns v)
      have "save_ai_response e saved sid v
          = (if bson_encodable v
             then Some (apply_update sid \<lparr>role = ''assistant'', content = v,
                                          timestamp = Some (now e 221)\<rparr> None False docs1)
             else Some docs1)"
        using ok by (simp add: save_ai_response_def update_one_def sv)
      with Returns show ?thesis
        by (simp add: out history_of_apply_update_existing [OF ex] h1)
    qed
  qed
  from sent last_ms rep store show ?thesis
    unfolding sid_def m_def by blast
qed

theorem chat_without_message_key_witness:
  "chat \<lparr>now = (\<lambda>l. l), token_hex = ''9b1c'', store_fault = (\<lambda>l. None)\<rparr>
        \<lparr>conversations = Some [], groq_client = Some (\<lambda>ms. Returns (JStr ''What do you mean?''))\<rparr>
        (Some ''0f3a'') (Some (JObj [(''text'', JStr ''Hello'')]))
   = \<lparr>reply = \<lparr>response = JStr ''What do you mean?'', status = ''success''\<rparr>,
      session_out = Some ''0f3a'',
      store_out = Some [\<lparr>doc_id = 1, session_id = Some ''0f3a'',
         messages = Some [\<lparr>role = ''user'', content = JNull, timestamp = Some 153\<rparr>,
                          \<lparr>role = ''assistant'', content = JStr ''What do you mean?'',
                            timestamp = Some 221\<rparr>],
         created_at = None, updated_at = Some 155, other = []\<rparr>],
      sent = [[system_message, \<lparr>role = ''user'', content = JNull, timestamp = None\<rparr>]]\<rparr>"
  using chat_without_message_key [of "Some (JObj [(''text'', JStr ''Hello'')])"
      "[(''text'', JStr ''Hello'')]"
      "\<lparr>conversations = Some [], groq_client = Some (\<lambda>ms. Returns (JStr ''What do you mean?''))\<rparr>"
      "\<lambda>ms. Returns (JStr ''What do you mean?'')"
      "\<lparr>now = (\<lambda>l. l), token_hex = ''9b1c'', store_fault = (\<lambda>l. None)\<rparr>"
      "Some ''0f3a''"]
  by (simp add: chat_def get_message_def session_token_def save_user_message_def
      fetch_history_def save_ai_response_def build_messages_def update_one_def apply_update_def
      push_message_def new_id_def find_one_def last10_def for_completion_def Let_def)

section \<open>The store test route\<close>

text \<open>
  Claim C10. \<^verbatim>\<open>GET /test-mongodb\<close> inserts a test document and deletes it again,
  leaving the collection as it was. When the insert or the delete raises an exception
  with text \<open>x\<close>, the body has status \<^verbatim>\<open>error\<close> and the message
  \<^verbatim>\<open>MongoDB test failed: \<close> followed by \<open>x\<close> itself, unlike the fixed sentences of
  \<^verbatim>\<open>chat\<close>.
\<close>

theorem test_mongodb_exposes_exception:
  assumes conn: "conversations a = Some docs"
  shows "(store_fault e 312 = Some x \<longrightarrow>
            test_mongodb e a
              = (\<lparr>st_status = ''error'', st_message = Some (''MongoDB test failed: '' @ x)\<rparr>,
                 Some docs))
       \<and> (store_fault e 312 = None \<and> store_fault e 319 = Some x \<longrightarrow>
            test_mongodb e a
              = (\<lparr>st_status = ''error'', st_message = Some (''MongoDB test failed: '' @ x)\<rparr>,
                 Some (docs @ [(test_document (now e 314))\<lparr>doc_id := new_id docs\<rparr>])))
       \<and> (store_fault e 312 = None \<and> store_fault e 319 = None \<longrightarrow>
            test_mongodb e a
              = (\<lparr>st_status = ''success'', st_message = Some ''MongoDB connection is working!''\<rparr>,
                 Some docs))"
proof -
  have del: "delete_by_id (new_id docs) (docs @ [(test_document (now e 314))\<lparr>doc_id := new_id docs\<rparr>])
      = docs"
    using delete_inserted [of "test_document (now e 314)" docs] by (simp add: insert_one_def)
  show ?thesis
    by (simp add: test_mongodb_def conn insert_one_def del)
qed

theorem test_mongodb_exposes_exception_witness:
  "test_mongodb \<lparr>now = (\<lambda>l. l), token_hex = ''9b1c'',
       store_fault = (\<lambda>l. if l = 312 then Some ''bad auth: Authentication failed'' else None)\<rparr>
     \<lparr>conversations = Some [], groq_client = None\<rparr>
   = (\<lparr>st_status = ''error'',
       st_message = Some ''MongoDB test failed: bad auth: Authentication failed''\<rparr>, Some [])
   \<and> test_mongodb \<lparr>now = (\<lambda>l. l), token_hex = ''9b1c'',
       store_fault = (\<lambda>l. if l = 319 then Some ''socket closed'' else None)\<rparr>
     \<lparr>conversations = Some [], groq_client = None\<rparr>
   = (\<lparr>st_status = ''error'', st_message = Some ''MongoDB test failed: socket closed''\<rparr>,
      Some [\<lparr>doc_id = 1, session_id = None, messages = None, created_at = None,
              updated_at = None,
              other = [(''test'', JBool True), (''timestamp'', JNum 314),
                       (''message'', JStr ''Test connection'')]\<rparr>])
   \<and> test_mongodb \<lparr>now = (\<lambda>l. l), token_hex = ''9b1c'', store_fault = (\<lambda>l. None)\<rparr>
     \<lparr>conversations = Some [], groq_client = None\<rparr>
   = (\<lparr>st_status = ''success'', st_message = Some ''MongoDB connection is working!''\<rparr>, Some [])"
  using test_mongodb_exposes_exception [of "\<lparr>conversations = Some [], groq_client = None\<rparr>" "[]"
      "\<lparr>now = (\<lambda>l. l), token_hex = ''9b1c'',
        store_fault = (\<lambda>l. if l = 312 then Some ''bad auth: Authentication failed'' else None)\<rparr>"
      "''bad auth: Authentication failed''"]
    test_mongodb_exposes_exception [of "\<lparr>conversations = Some [], groq_client = None\<rparr>" "[]"
      "\<lparr>now = (\<lambda>l. l), token_hex = ''9b1c'',
        store_fault = (\<lambda>l. if l = 319 then Some ''socket closed'' else None)\<rparr>"
      "''socket closed''"]
    test_mongodb_exposes_exception [of "\<lparr>conversations = Some [], groq_client = None\<rparr>" "[]"
      "\<lparr>now = (\<lambda>l. l), token_hex = ''9b1c'', store_fault = (\<lambda>l. None)\<rparr>"]
  by (simp add: test_document_def new_id_def)

end
